theory Spec2Isabelle
  imports Complex_Main "HOL-Library.Sublist"
begin

section \<open>Python values\<close>

text \<open>
  A Python float is modelled by its value: a real number, one of the two infinities, or
  not-a-number. Rounding of arithmetic results is not modelled; the comparisons are the
  IEEE ones (every comparison with NaN is false, \<open>!=\<close> with NaN is true).
\<close>

datatype pyfloat = Finite real | PosInf | NegInf | NaN

fun flt :: "pyfloat \<Rightarrow> pyfloat \<Rightarrow> bool" where
  "flt NaN _ = False"
| "flt _ NaN = False"
| "flt (Finite a) (Finite b) = (a < b)"
| "flt NegInf NegInf = False"
| "flt NegInf _ = True"
| "flt _ PosInf = False"
| "flt PosInf _ = False"
| "flt (Finite a) NegInf = False"

fun feq :: "pyfloat \<Rightarrow> pyfloat \<Rightarrow> bool" where
  "feq NaN _ = False"
| "feq _ NaN = False"
| "feq a b = (a = b)"

definition fne :: "pyfloat \<Rightarrow> pyfloat \<Rightarrow> bool" where
  "fne a b = (\<not> feq a b)"

fun fadd :: "pyfloat \<Rightarrow> pyfloat \<Rightarrow> pyfloat" where
  "fadd NaN _ = NaN"
| "fadd _ NaN = NaN"
| "fadd (Finite a) (Finite b) = Finite (a + b)"
| "fadd PosInf NegInf = NaN"
| "fadd NegInf PosInf = NaN"
| "fadd PosInf _ = PosInf"
| "fadd NegInf _ = NegInf"
| "fadd (Finite a) PosInf = PosInf"
| "fadd (Finite a) NegInf = NegInf"

text \<open>
  The values an attribute of a feature can hold as the script sees them: \<open>None\<close>, an
  integer, a float, a string, or an object of another type (a date, a list).
\<close>

datatype pyval = PyNone | PyInt int | PyFloat pyfloat | PyStr string | PyOther

text \<open>
  The exceptions of the two scripts, by class. \<open>ValueError\<close> is the class the top-level
  handler reports as a warning; every other class is reported as an unexpected error.
\<close>

datatype error =
    ValueError string
  | TypeError string
  | AttributeError string
  | OSError string
  | QgsProcessingException string
  | Exception string

text \<open>
  Python's \<open>float(v)\<close>. Parsing a string is the interpreter's work and is taken as the
  parameter \<open>parse\<close> (\<open>None\<close> where \<open>float\<close> rejects the text). An integer
  converts to the float of the same value. \<open>float(None)\<close> and \<open>float\<close> of an
  unrelated object raise \<open>TypeError\<close>. The messages are shortened: Python appends the
  offending text or type.
\<close>

fun py_float :: "(string \<Rightarrow> pyfloat option) \<Rightarrow> pyval \<Rightarrow> error + pyfloat" where
  "py_float parse (PyFloat x) = Inr x"
| "py_float parse (PyInt i) = Inr (Finite (of_int i))"
| "py_float parse (PyStr s) =
     (case parse s of
        Some x \<Rightarrow> Inr x
      | None \<Rightarrow> Inl (ValueError ''could not convert string to float''))"
| "py_float parse PyNone = Inl (TypeError ''float() argument must be a string or a real number'')"
| "py_float parse PyOther = Inl (TypeError ''float() argument must be a string or a real number'')"

section \<open>Point datasets\<close>

text \<open>
  The geometry types the extraction distinguishes: the single-point types, and
  \<open>OtherWkb\<close> for every type that is not a single point (a multi-point, a line, a
  polygon).
\<close>

datatype wkb_type = Point | PointZ | PointM | PointZM | Point25D | OtherWkb

text \<open>
  A geometry as the extraction reads it: \<open>isEmpty()\<close>, \<open>wkbType()\<close> and the Z of
  \<open>vertexAt(0)\<close>.
\<close>

record geometry =
  isEmpty :: bool
  wkbType :: wkb_type
  vertex_z :: pyfloat

text \<open>
  A feature: its geometry and its attributes, as the list of fields in order, each with its
  name and value. \<open>feature[name]\<close> reads the first field of that name.
\<close>

record feature =
  geometry :: geometry
  attributes :: "(string \<times> pyval) list"

definition field_names :: "feature \<Rightarrow> string list" where
  "field_names f = map fst (attributes f)"

definition feature_item :: "feature \<Rightarrow> string \<Rightarrow> error + pyval" where
  "feature_item f n =
     (case map_of (attributes f) n of
        Some v \<Rightarrow> Inr v
      | None \<Rightarrow> Inl (Exception ''KeyError''))"

record point_layer =
  lname :: string
  features :: "feature list"

section \<open>level.py: base-elevation extraction\<close>

definition z_wkb_types :: "wkb_type list" where
  "z_wkb_types = [Point25D, PointZ, PointZM]"

definition elevation_fields :: "string list" where
  "elevation_fields = [''z'', ''Z'', ''elevation'', ''elev'', ''height'']"

text \<open>
  The \<open>for field_name in [...]\<close> loop of \<open>get_base_elevation_from_point\<close>: the first
  candidate that is a field of the feature and whose value is not \<open>None\<close> is converted
  with \<open>float\<close> and returned; when the loop ends, the function raises.
\<close>

fun probe_fields :: "(string \<Rightarrow> pyfloat option) \<Rightarrow> feature \<Rightarrow> string list \<Rightarrow> error + pyfloat" where
  "probe_fields parse f [] =
     Inl (ValueError ''Point layer has no Z coordinate in geometry or attributes'')"
| "probe_fields parse f (n # ns) =
     (if n \<in> set (field_names f) then
        (case feature_item f n of
           Inl e \<Rightarrow> Inl e
         | Inr z_value \<Rightarrow>
             (if z_value \<noteq> PyNone then py_float parse z_value
              else probe_fields parse f ns))
      else probe_fields parse f ns)"

text \<open>
  \<open>get_base_elevation_from_point(point_layer)\<close>. The argument is \<open>None\<close> when no layer
  object is passed. \<open>featureCount()\<close> is the number of features and
  \<open>next(getFeatures())\<close> the first of them. The call \<open>geometry.asPoint()\<close>, whose
  result is not used, raises \<open>TypeError\<close> in the host's Python bindings for a geometry
  that is not a single point.
\<close>

definition get_base_elevation_from_point ::
  "(string \<Rightarrow> pyfloat option) \<Rightarrow> point_layer option \<Rightarrow> error + pyfloat" where
  "get_base_elevation_from_point parse point_layer =
     (case point_layer of
        None \<Rightarrow> Inl (ValueError ''Point layer is empty or invalid'')
      | Some layer \<Rightarrow>
          (case features layer of
             [] \<Rightarrow> Inl (ValueError ''Point layer is empty or invalid'')
           | first_feature # _ \<Rightarrow>
               (let g = geometry first_feature in
                if isEmpty g then Inl (ValueError ''Point geometry is empty'')
                else if wkbType g = OtherWkb
                then Inl (TypeError ''geometry cannot be converted to a point'')
                else if wkbType g \<in> set z_wkb_types then
                  (if fne (vertex_z g) (vertex_z g)
                   then Inl (ValueError ''Point Z coordinate is not valid (NaN)'')
                   else Inr (vertex_z g))
                else probe_fields parse first_feature elevation_fields)))"

text \<open>The error kinds of the specification, as the exceptions the code raises for them.\<close>

definition EmptyInputError :: error where
  "EmptyInputError = ValueError ''Point layer is empty or invalid''"

definition InvalidGeometryError :: error where
  "InvalidGeometryError = ValueError ''Point geometry is empty''"

definition InvalidValueError :: error where
  "InvalidValueError = ValueError ''Point Z coordinate is not valid (NaN)''"

definition MissingElevationError :: error where
  "MissingElevationError = ValueError ''Point layer has no Z coordinate in geometry or attributes''"

text \<open>
  A candidate name counts for the loop when it is a field of the feature and its value is
  not \<open>None\<close>.
\<close>

definition present_non_null :: "feature \<Rightarrow> string \<Rightarrow> bool" where
  "present_non_null f n =
     (case map_of (attributes f) n of None \<Rightarrow> False | Some v \<Rightarrow> v \<noteq> PyNone)"

section \<open>Paths and strings of the Python library\<close>

text \<open>
  \<open>posixpath.basename\<close>: what follows the last slash.
\<close>

definition os_path_basename :: "string \<Rightarrow> string" where
  "os_path_basename p = rev (takeWhile (\<lambda>c. c \<noteq> CHR ''/'') (rev p))"

text \<open>\<open>str.rfind\<close> for a single character: the last index of \<open>c\<close>, or \<open>-1\<close>.\<close>

definition rfind :: "string \<Rightarrow> char \<Rightarrow> int" where
  "rfind p c =
     (if c \<in> set p
      then int (length p) - 1 - int (length (takeWhile (\<lambda>x. x \<noteq> c) (rev p)))
      else - 1)"

text \<open>
  \<open>posixpath.splitext\<close>: the path is cut at the last dot when that dot lies in the last
  component and some character of the component before it is not a dot; otherwise the
  extension is empty.
\<close>

definition os_path_splitext :: "string \<Rightarrow> string \<times> string" where
  "os_path_splitext p =
     (let sepIndex = rfind p CHR ''/'';
          dotIndex = rfind p CHR ''.''
      in if dotIndex > sepIndex \<and>
            list_ex (\<lambda>c. c \<noteq> CHR ''.'')
              (take (nat (dotIndex - (sepIndex + 1))) (drop (nat (sepIndex + 1)) p))
         then (take (nat dotIndex) p, drop (nat dotIndex) p)
         else (p, []))"

text \<open>\<open>posixpath.join\<close> of two components.\<close>

definition os_path_join :: "string \<Rightarrow> string \<Rightarrow> string" where
  "os_path_join a b =
     (if b \<noteq> [] \<and> hd b = CHR ''/'' then b
      else if a = [] \<or> last a = CHR ''/'' then a @ b
      else a @ ''/'' @ b)"

text \<open>
  \<open>str.replace(old, new)\<close>: every occurrence of \<open>old\<close>, found from the left without
  overlap, is replaced. With an empty \<open>old\<close>, \<open>new\<close> is put around every character.
\<close>

fun replace_from :: "string \<Rightarrow> string \<Rightarrow> string \<Rightarrow> string" where
  "replace_from old new [] = []"
| "replace_from old new (c # cs) =
     (if old \<noteq> [] \<and> prefix old (c # cs)
      then new @ replace_from old new (drop (length old) (c # cs))
      else c # replace_from old new cs)"

definition py_replace :: "string \<Rightarrow> string \<Rightarrow> string \<Rightarrow> string" where
  "py_replace old new s =
     (if old = [] then new @ concat (map (\<lambda>c. c # new) s) else replace_from old new s)"

text \<open>\<open>str.strip()\<close>: leading and trailing ASCII whitespace is removed.\<close>

definition py_isspace :: "char \<Rightarrow> bool" where
  "py_isspace c = (c \<in> set [CHR '' '', CHR 0x09, CHR 0x0A, CHR 0x0B, CHR 0x0C, CHR 0x0D])"

definition py_strip :: "string \<Rightarrow> string" where
  "py_strip s = rev (dropWhile py_isspace (rev (dropWhile py_isspace s)))"

section \<open>level.py: the raster-threshold expression\<close>

text \<open>
  The \<open>EXPRESSION\<close> parameter of step 1, the f-string
  \<^verbatim>\<open>"{dem_name}.tif@1" < ({base_elevation}+{level})\<close>
  where \<open>repr\<close> is the text Python gives a float in an f-string.
\<close>

definition rastercalc_expression ::
  "(pyfloat \<Rightarrow> string) \<Rightarrow> string \<Rightarrow> pyfloat \<Rightarrow> pyfloat \<Rightarrow> string" where
  "rastercalc_expression repr dem_name base_elevation level =
     [CHR 0x22] @ dem_name @ ''.tif@1'' @ [CHR 0x22] @ '' < ('' @
     repr base_elevation @ ''+'' @ repr level @ '')''"

text \<open>\<open>dem_name\<close> as the pipeline computes it from the DEM layer's source path.\<close>

definition dem_name_of :: "string \<Rightarrow> string" where
  "dem_name_of dem_path = fst (os_path_splitext (os_path_basename dem_path))"

text \<open>
  The expression as a term of the raster calculator's language. Its text, as
  \<open>render\<close> writes it, is the f-string above.
\<close>

datatype rexpr = Ref string | Num pyfloat | Plus rexpr rexpr | Less rexpr rexpr

fun render :: "(pyfloat \<Rightarrow> string) \<Rightarrow> rexpr \<Rightarrow> string" where
  "render repr (Ref r) = [CHR 0x22] @ r @ [CHR 0x22]"
| "render repr (Num x) = repr x"
| "render repr (Plus a b) = ''('' @ render repr a @ ''+'' @ render repr b @ '')''"
| "render repr (Less a b) = render repr a @ '' < '' @ render repr b"

definition threshold_expr :: "string \<Rightarrow> pyfloat \<Rightarrow> pyfloat \<Rightarrow> rexpr" where
  "threshold_expr dem_name base_elevation level =
     Less (Ref (dem_name @ ''.tif@1'')) (Plus (Num base_elevation) (Num level))"

text \<open>
  Modelled from the spec: the raster calculator of the host's toolbox, which is not part
  of this repository. The indicator raster has 1 in a cell where the comparison holds and
  0 elsewhere. \<open>bands\<close> gives, for each band reference the calculator can resolve, the
  value of the cell in that band; an expression with an unresolved reference has no value.
\<close>

fun eval_cell :: "(string \<rightharpoonup> pyfloat) \<Rightarrow> rexpr \<Rightarrow> pyfloat option" where
  "eval_cell bands (Ref r) = bands r"
| "eval_cell bands (Num x) = Some x"
| "eval_cell bands (Plus a b) =
     (case (eval_cell bands a, eval_cell bands b) of
        (Some x, Some y) \<Rightarrow> Some (fadd x y)
      | _ \<Rightarrow> None)"
| "eval_cell bands (Less a b) =
     (case (eval_cell bands a, eval_cell bands b) of
        (Some x, Some y) \<Rightarrow> Some (if flt x y then Finite 1 else Finite 0)
      | _ \<Rightarrow> None)"

text \<open>A cell is flagged inundated when the threshold expression evaluates to 1 there.\<close>

definition inundated :: "(string \<rightharpoonup> pyfloat) \<Rightarrow> string \<Rightarrow> pyfloat \<Rightarrow> pyfloat \<Rightarrow> bool" where
  "inundated bands dem_name base_elevation level =
     (eval_cell bands (threshold_expr dem_name base_elevation level) = Some (Finite 1))"

section \<open>level.py: the host application\<close>

text \<open>
  The DEM layer as the script reads it: \<open>name()\<close> and \<open>source()\<close>.
\<close>

record raster_layer =
  raster_name :: string
  raster_source :: string

text \<open>
  A layer object the script builds from a file with \<open>QgsVectorLayer(path, name, "ogr")\<close>:
  its \<open>id()\<close>, its source path and its name.
\<close>

record layer_handle =
  handle_id :: nat
  handle_source :: string
  handle_name :: string

text \<open>
  The four toolbox operations the script runs, with the parameters it passes:
  \<open>native:rastercalc\<close> (LAYERS, EXPRESSION, EXTENT, OUTPUT),
  \<open>gdal:polygonize\<close> (INPUT, BAND, FIELD, EIGHT_CONNECTEDNESS, EXTRA, OUTPUT),
  \<open>native:selectbylocation\<close> (INPUT, PREDICATE, INTERSECT, METHOD) and
  \<open>native:saveselectedfeatures\<close> (INPUT, OUTPUT).
\<close>

datatype toolbox_call =
    RasterCalc "string list" string string string
  | Polygonize string nat string bool string string
  | SelectByLocation layer_handle "nat list" point_layer nat
  | SaveSelectedFeatures layer_handle string

text \<open>The places where the host can make the pipeline fail.\<close>

datatype stage = MakeDirs | RasterThreshold | Vectorize | SpatialFilter | Persist | RemoveFile

text \<open>
  What the script takes from its environment: how Python writes a float (in an f-string,
  and with \<open>:.1f\<close>), how \<open>float\<close> reads a string, which stages fail in this run, which
  sidecar files the shapefile writer puts beside a \<open>.shp\<close>, the text of the canvas
  extent, and the directory \<open>output\<close> under the project's home.
\<close>

record host =
  float_repr :: "pyfloat \<Rightarrow> string"
  float_fixed1 :: "pyfloat \<Rightarrow> string"
  float_of_str :: "string \<Rightarrow> pyfloat option"
  failing :: "stage set"
  sidecar_exts :: "string list"
  canvas_extent_string :: string
  project_output_dir :: string

text \<open>
  The state the script acts on: the files that exist, the layers registered with the
  project, the toolbox calls made so far, and the next fresh layer id.
\<close>

record world =
  files :: "string set"
  registered :: "layer_handle list"
  calls :: "toolbox_call list"
  next_id :: nat

text \<open>
  Modelled from the spec: \<open>processing.run\<close> of the host's toolbox, which is not part of
  this repository. The call is made with its parameters; at a failing stage it raises, and
  otherwise it writes its output files.
\<close>

definition processing_run ::
  "host \<Rightarrow> stage \<Rightarrow> toolbox_call \<Rightarrow> string list \<Rightarrow> world \<Rightarrow> error option \<times> world" where
  "processing_run h st c outputs w =
     (if st \<in> failing h
      then (Some (QgsProcessingException ''processing.run failed''), w\<lparr>calls := calls w @ [c]\<rparr>)
      else (None, w\<lparr>calls := calls w @ [c], files := files w \<union> set outputs\<rparr>))"

text \<open>
  Modelled from the spec: the files the host writes for a shapefile at \<open>path\<close>, the
  \<open>.shp\<close> and the sidecar files beside it.
\<close>

definition shapefile_files :: "host \<Rightarrow> string \<Rightarrow> string list" where
  "shapefile_files h path =
     path # map (\<lambda>e. take (length path - 4) path @ e) (sidecar_exts h)"

text \<open>
  Modelled from the spec: the host's project, which accepts "add layer" and "remove layer
  by identifier". \<open>QgsVectorLayer(path, name, "ogr")\<close> makes a layer object with a
  fresh id; \<open>addMapLayer\<close> registers a layer with the project and \<open>removeMapLayer\<close>
  removes the layer of the given id.
\<close>

definition QgsVectorLayer :: "string \<Rightarrow> string \<Rightarrow> world \<Rightarrow> layer_handle \<times> world" where
  "QgsVectorLayer path name w =
     (\<lparr>handle_id = next_id w, handle_source = path, handle_name = name\<rparr>,
      w\<lparr>next_id := Suc (next_id w)\<rparr>)"

definition addMapLayer :: "layer_handle \<Rightarrow> world \<Rightarrow> world" where
  "addMapLayer l w = w\<lparr>registered := registered w @ [l]\<rparr>"

definition removeMapLayer :: "nat \<Rightarrow> world \<Rightarrow> world" where
  "removeMapLayer i w = w\<lparr>registered := filter (\<lambda>l. handle_id l \<noteq> i) (registered w)\<rparr>"

section \<open>level.py: create_water_level_polygon\<close>

text \<open>The paths the function computes from \<open>output_dir\<close> and \<open>level\<close>.\<close>

definition level_folder :: "host \<Rightarrow> string \<Rightarrow> pyfloat \<Rightarrow> string" where
  "level_folder h output_dir level =
     os_path_join output_dir (''water_level_'' @ float_repr h level @ ''m'')"

definition raster_output :: "host \<Rightarrow> string \<Rightarrow> pyfloat \<Rightarrow> string" where
  "raster_output h output_dir level =
     os_path_join (level_folder h output_dir level) (float_repr h level @ ''_level.tif'')"

definition temp_polygon_output :: "host \<Rightarrow> string \<Rightarrow> pyfloat \<Rightarrow> string" where
  "temp_polygon_output h output_dir level =
     os_path_join (level_folder h output_dir level)
       (float_repr h level @ ''_level_polygon_temp.shp'')"

definition filtered_polygon_output :: "host \<Rightarrow> string \<Rightarrow> pyfloat \<Rightarrow> string" where
  "filtered_polygon_output h output_dir level =
     os_path_join (level_folder h output_dir level)
       (float_repr h level @ ''_level_polygon.shp'')"

text \<open>
  The clean-up at the end of the function: when the temporary \<open>.shp\<close> exists it is
  removed, and then each of its sidecar paths, computed with \<open>str.replace\<close>, that exists.
  \<open>os.remove\<close> raises at the stage \<open>RemoveFile\<close>.
\<close>

definition remove_if_exists :: "world \<Rightarrow> string \<Rightarrow> world" where
  "remove_if_exists w p = (if p \<in> files w then w\<lparr>files := files w - {p}\<rparr> else w)"

definition clean_up :: "host \<Rightarrow> string \<Rightarrow> world \<Rightarrow> error option \<times> world" where
  "clean_up h temp w =
     (if temp \<in> files w then
        (if RemoveFile \<in> failing h then (Some (OSError ''os.remove failed''), w)
         else (None,
               foldl remove_if_exists (w\<lparr>files := files w - {temp}\<rparr>)
                 (map (\<lambda>ext. py_replace ''.shp'' ext temp)
                    [''.shx'', ''.dbf'', ''.prj'', ''.cpg''])))
      else (None, w))"

text \<open>
  Steps 3 and 4 and the clean-up, from the loading of the temporary polygon layer on. The
  styling of the final layer touches neither the files nor the project's layers and is
  taken to succeed.
\<close>

definition filter_and_load ::
  "host \<Rightarrow> point_layer \<Rightarrow> pyfloat \<Rightarrow> pyfloat \<Rightarrow> string \<Rightarrow> world \<Rightarrow> (error + string) \<times> world" where
  "filter_and_load h point_layer level base_elevation output_dir w2 =
     (let temp = temp_polygon_output h output_dir level;
          filtered = filtered_polygon_output h output_dir level;
          (temp_polygon_layer, w3) = QgsVectorLayer temp ''temp_polygons'' w2;
          w4 = addMapLayer temp_polygon_layer w3
      in case processing_run h SpatialFilter
                (SelectByLocation temp_polygon_layer [0] point_layer 0) [] w4 of
           (Some e, w5) \<Rightarrow> (Inl e, w5)
         | (None, w5) \<Rightarrow>
      (case processing_run h Persist
                (SaveSelectedFeatures temp_polygon_layer filtered)
                (shapefile_files h filtered) w5 of
           (Some e, w6) \<Rightarrow> (Inl e, w6)
         | (None, w6) \<Rightarrow>
      (let w7 = removeMapLayer (handle_id temp_polygon_layer) w6;
           (polygon_layer, w8) =
              QgsVectorLayer filtered
                (''Water Level '' @ float_repr h level @ ''m (Base: '' @
                 float_fixed1 h base_elevation @ ''m)'') w7;
           w9 = addMapLayer polygon_layer w8
       in case clean_up h temp w9 of
            (Some e, w10) \<Rightarrow> (Inl e, w10)
          | (None, w10) \<Rightarrow> (Inr filtered, w10))))"

text \<open>
  \<open>create_water_level_polygon(dem_layer, point_layer, level, base_elevation, extent,
  output_dir)\<close>: the output folder, step 1 (raster mask), step 2 (polygonize), and the
  rest.
\<close>

definition create_water_level_polygon ::
  "host \<Rightarrow> raster_layer \<Rightarrow> point_layer \<Rightarrow> pyfloat \<Rightarrow> pyfloat \<Rightarrow> string \<Rightarrow> string \<Rightarrow> world
     \<Rightarrow> (error + string) \<times> world" where
  "create_water_level_polygon h dem_layer point_layer level base_elevation extent output_dir w0 =
     (if MakeDirs \<in> failing h then (Inl (OSError ''os.makedirs failed''), w0)
      else
        (let dem_path = raster_source dem_layer;
             dem_name = dem_name_of dem_path;
             raster = raster_output h output_dir level;
             temp = temp_polygon_output h output_dir level
         in case processing_run h RasterThreshold
                   (RasterCalc [dem_path]
                      (rastercalc_expression (float_repr h) dem_name base_elevation level)
                      extent raster)
                   [raster] w0 of
              (Some e, w1) \<Rightarrow> (Inl e, w1)
            | (None, w1) \<Rightarrow>
         (case processing_run h Vectorize
                   (Polygonize raster 1 ''DN'' True [] temp)
                   (shapefile_files h temp) w1 of
              (Some e, w2) \<Rightarrow> (Inl e, w2)
            | (None, w2) \<Rightarrow>
                filter_and_load h point_layer level base_elevation output_dir w2)))"

section \<open>level.py: the dialog and the script\<close>

text \<open>
  The state of the dialog when it closes: whether it was accepted, the data of the two
  combo boxes (\<open>None\<close> when nothing is selected), the spin box's value, the radio button
  and the text of the custom extent.
\<close>

record dialog =
  accepted :: bool
  dem_combo_data :: "raster_layer option"
  point_combo_data :: "point_layer option"
  level_spinbox_value :: pyfloat
  canvas_radio_checked :: bool
  extent_input_text :: string

definition get_values ::
  "host \<Rightarrow> dialog \<Rightarrow> error + (raster_layer \<times> point_layer \<times> pyfloat \<times> pyfloat \<times> string)" where
  "get_values h d =
     (case dem_combo_data d of
        None \<Rightarrow> Inl (ValueError ''No DEM layer selected'')
      | Some dem_layer \<Rightarrow>
     (case point_combo_data d of
        None \<Rightarrow> Inl (ValueError ''No point layer selected'')
      | Some point_layer \<Rightarrow>
     (case get_base_elevation_from_point (float_of_str h) (Some point_layer) of
        Inl e \<Rightarrow> Inl e
      | Inr base_elevation \<Rightarrow>
          (let level = level_spinbox_value d in
           if canvas_radio_checked d
           then Inr (dem_layer, point_layer, base_elevation, level, canvas_extent_string h)
           else (let extent_string = py_strip (extent_input_text d) in
                 if extent_string = [] then Inl (ValueError ''Custom extent cannot be empty'')
                 else Inr (dem_layer, point_layer, base_elevation, level, extent_string))))))"

text \<open>
  The script's body with its two handlers: a \<open>ValueError\<close> is shown as a warning, any
  other exception as an unexpected error; a rejected dialog ends the run.
\<close>

datatype outcome = Cancelled | Created string | InputError error | UnexpectedError error

fun report :: "error \<Rightarrow> outcome" where
  "report (ValueError m) = InputError (ValueError m)"
| "report e = UnexpectedError e"

definition main :: "host \<Rightarrow> dialog \<Rightarrow> world \<Rightarrow> outcome \<times> world" where
  "main h d w =
     (if \<not> accepted d then (Cancelled, w)
      else case get_values h d of
             Inl e \<Rightarrow> (report e, w)
           | Inr (dem_layer, point_layer, base_elevation, level, extent) \<Rightarrow>
               (case create_water_level_polygon h dem_layer point_layer level base_elevation
                       extent (project_output_dir h) w of
                  (Inl e, w') \<Rightarrow> (report e, w')
                | (Inr polygon_path, w') \<Rightarrow> (Created polygon_path, w')))"

text \<open>
  The point layers handed to the spatial filter as \<open>INTERSECT\<close> in a list of toolbox
  calls, and the features of those layers.
\<close>

fun intersect_layers :: "toolbox_call list \<Rightarrow> point_layer list" where
  "intersect_layers [] = []"
| "intersect_layers (SelectByLocation l ps pl m # cs) = pl # intersect_layers cs"
| "intersect_layers (c # cs) = intersect_layers cs"

definition filter_features :: "toolbox_call list \<Rightarrow> feature list" where
  "filter_features cs = concat (map features (intersect_layers cs))"

section \<open>add_point.py: create_point_layer\<close>

text \<open>
  The layer the point creator makes: its name, its features, the data provider
  (\<open>memory\<close> or \<open>ogr\<close>) and its source (the layer URI or the file path).
\<close>

record vector_layer = point_layer +
  provider :: string
  source :: string

text \<open>
  What the point creator takes from the host: the id of the project's coordinate system,
  whether the memory layer it asks for is valid, whether the shapefile writer reports an
  error, and whether the layer loaded from the written file is valid.
\<close>

record creator_host =
  project_crs_authid :: string
  memory_layer_valid :: bool
  writer_has_error :: bool
  file_layer_valid :: bool

text \<open>The files written and the layers registered with the project.\<close>

record creator_world =
  written_files :: "string set"
  project_layers :: "vector_layer list"

definition point_fields :: "string list" where
  "point_fields = [''id'', ''x'', ''y'', ''z'', ''name'']"

text \<open>The feature both branches build: the point with its Z and the five attributes.\<close>

definition point_feature :: "string \<Rightarrow> pyfloat \<Rightarrow> pyfloat \<Rightarrow> pyfloat \<Rightarrow> feature" where
  "point_feature layer_name x y z =
     \<lparr>geometry = \<lparr>isEmpty = False, wkbType = PointZ, vertex_z = z\<rparr>,
       attributes = zip point_fields
          [PyInt 1, PyFloat x, PyFloat y, PyFloat z, PyStr layer_name]\<rparr>"

text \<open>
  The branch taken when an output path is given: the writer is opened and the feature
  written, then the file is loaded as a layer, checked and registered.
\<close>

definition create_shapefile_layer ::
  "creator_host \<Rightarrow> string \<Rightarrow> pyfloat \<Rightarrow> pyfloat \<Rightarrow> pyfloat \<Rightarrow> string \<Rightarrow> creator_world
     \<Rightarrow> (error + vector_layer) \<times> creator_world" where
  "create_shapefile_layer h layer_name x y z path w =
     (if writer_has_error h then (Inl (Exception ''Error creating shapefile''), w)
      else
        (let w1 = w\<lparr>written_files := insert path (written_files w)\<rparr>;
             layer = \<lparr>lname = layer_name, features = [point_feature layer_name x y z],
                      provider = ''ogr'', source = path\<rparr>
         in if \<not> file_layer_valid h
            then (Inl (Exception ''Created layer is not valid''), w1)
            else (Inr layer, w1\<lparr>project_layers := project_layers w1 @ [layer]\<rparr>)))"

text \<open>
  The branch taken without an output path: a memory layer with the five fields, checked,
  then the feature added and committed, then the layer checked again and registered.
\<close>

definition create_memory_layer ::
  "creator_host \<Rightarrow> string \<Rightarrow> pyfloat \<Rightarrow> pyfloat \<Rightarrow> pyfloat \<Rightarrow> creator_world
     \<Rightarrow> (error + vector_layer) \<times> creator_world" where
  "create_memory_layer h layer_name x y z w =
     (let layer_uri = ''Point?crs='' @ project_crs_authid h @
            ''&field=id:integer&field=x:double&field=y:double&field=z:double&field=name:string''
      in if \<not> memory_layer_valid h
         then (Inl (Exception ''Failed to create memory layer''), w)
         else
           (let layer = \<lparr>lname = layer_name, features = [point_feature layer_name x y z],
                         provider = ''memory'', source = layer_uri\<rparr>
            in if \<not> memory_layer_valid h
               then (Inl (Exception ''Created layer is not valid''), w)
               else (Inr layer, w\<lparr>project_layers := project_layers w @ [layer]\<rparr>)))"

text \<open>
  \<open>create_point_layer(layer_name, x, y, z, output_file_path=None)\<close>. The path counts
  as given when it is neither \<open>None\<close> nor the empty string.
\<close>

definition create_point_layer ::
  "creator_host \<Rightarrow> string \<Rightarrow> pyfloat \<Rightarrow> pyfloat \<Rightarrow> pyfloat \<Rightarrow> string option \<Rightarrow> creator_world
     \<Rightarrow> (error + vector_layer) \<times> creator_world" where
  "create_point_layer h layer_name x y z output_file_path w =
     (case output_file_path of
        None \<Rightarrow> create_memory_layer h layer_name x y z w
      | Some path \<Rightarrow>
          (if path = [] then create_memory_layer h layer_name x y z w
           else create_shapefile_layer h layer_name x y z path w))"

section \<open>An example run of level.py\<close>

text \<open>
  The inputs of the examples below: a flood level of 10.0 above a point of elevation
  88.86, a DEM at \<open>/data/dem.tif\<close> and the project's output directory
  \<open>/proj/output\<close>. \<open>sample_repr\<close> and \<open>sample_fixed1\<close> give the texts Python
  writes for the two floats of the example; no attribute of the example is a string, so
  \<open>float\<close> reads none. The stages that fail are the argument of \<open>sample_host\<close>.
\<close>

definition sample_repr :: "pyfloat \<Rightarrow> string" where
  "sample_repr x = (if x = Finite 10 then ''10.0'' else ''88.86'')"

definition sample_fixed1 :: "pyfloat \<Rightarrow> string" where
  "sample_fixed1 x = ''88.9''"

definition sample_host :: "stage set \<Rightarrow> host" where
  "sample_host fs =
     \<lparr>float_repr = sample_repr, float_fixed1 = sample_fixed1, float_of_str = Map.empty,
      failing = fs, sidecar_exts = [''.shx'', ''.dbf'', ''.prj''],
      canvas_extent_string = ''0.0,10.0,0.0,10.0 [EPSG:23700]'',
      project_output_dir = ''/proj/output''\<rparr>"

definition point_a :: feature where
  "point_a = \<lparr>geometry = \<lparr>isEmpty = False, wkbType = PointZ, vertex_z = Finite 88.86\<rparr>,
              attributes = [(''id'', PyInt 1)]\<rparr>"

definition point_b :: feature where
  "point_b = \<lparr>geometry = \<lparr>isEmpty = False, wkbType = PointZ, vertex_z = Finite 120\<rparr>,
              attributes = [(''id'', PyInt 2)]\<rparr>"

definition sample_dialog :: "feature list \<Rightarrow> dialog" where
  "sample_dialog fs =
     \<lparr>accepted = True,
      dem_combo_data = Some \<lparr>raster_name = ''dem'', raster_source = ''/data/dem.tif''\<rparr>,
      point_combo_data = Some \<lparr>lname = ''points'', features = fs\<rparr>,
      level_spinbox_value = Finite 10,
      canvas_radio_checked = True,
      extent_input_text = []\<rparr>"

definition sample_world :: world where
  "sample_world = \<lparr>files = {''/data/dem.tif''}, registered = [], calls = [], next_id = 0\<rparr>"

section \<open>Properties of the extraction\<close>

lemma fne_self: "fne z z = (z = NaN)"
  by (cases z) (simp_all add: fne_def)

lemma in_field_names: "n \<in> set (field_names f) \<longleftrightarrow> map_of (attributes f) n \<noteq> None"
  by (simp add: field_names_def map_of_eq_None_iff)

lemma probe_fields_skip:
  "\<not> present_non_null f n \<Longrightarrow> probe_fields parse f (n # ns) = probe_fields parse f ns"
  by (auto simp: present_non_null_def in_field_names feature_item_def split: option.splits)


lemma probe_fields_none:
  "find (present_non_null f) ns = None \<Longrightarrow>
   probe_fields parse f ns =
     Inl (ValueError ''Point layer has no Z coordinate in geometry or attributes'')"
proof (induction ns)
  case Nil
  then show ?case by simp
next
  case (Cons m ms)
  then have "\<not> present_non_null f m" by (auto split: if_splits)
  with Cons show ?case by (simp add: probe_fields_skip del: probe_fields.simps)
qed

text \<open>
  C1. When the first feature's geometry is not empty, has one of the Z-carrying point types
  and its Z is not NaN, the extraction returns that Z, whatever attributes the feature has.
\<close>

theorem geometry_z_priority:
  assumes "\<not> isEmpty g" and "wkbType g \<in> set z_wkb_types" and "vertex_z g \<noteq> NaN"
  shows "get_base_elevation_from_point parse
           (Some \<lparr>lname = nm, features = \<lparr>geometry = g, attributes = attrs\<rparr> # fs\<rparr>)
         = Inr (vertex_z g)"
  using assms by (auto simp: get_base_elevation_from_point_def fne_self z_wkb_types_def)

theorem geometry_z_priority_witness:
  "get_base_elevation_from_point Map.empty
     (Some \<lparr>lname = ''p'',
            features = [\<lparr>geometry = \<lparr>isEmpty = False, wkbType = PointZ, vertex_z = Finite 88.86\<rparr>,
                         attributes = [(''z'', PyFloat (Finite 1)), (''height'', PyStr ''n/a'')]\<rparr>]\<rparr>)
   = Inr (Finite 88.86)"
  using geometry_z_priority [of "\<lparr>isEmpty = False, wkbType = PointZ, vertex_z = Finite 88.86\<rparr>"
      Map.empty "''p''" "[(''z'', PyFloat (Finite 1)), (''height'', PyStr ''n/a'')]" "[]"]
  by (simp add: z_wkb_types_def)



lemma absent_or_null:
  "map_of (attributes f) n = None \<or> map_of (attributes f) n = Some PyNone \<Longrightarrow>
   \<not> present_non_null f n"
  by (auto simp: present_non_null_def)

text \<open>
  C6. A dataset without features fails with \<open>EmptyInputError\<close>. A dataset whose first
  feature has a 2D point geometry (not empty, of type \<open>Point\<close> or \<open>PointM\<close>), and in
  which each of the five candidate fields is absent or \<open>None\<close>, fails with
  \<open>MissingElevationError\<close>.
\<close>

theorem extraction_failures:
  "get_base_elevation_from_point parse (Some \<lparr>lname = nm, features = []\<rparr>)
     = Inl EmptyInputError \<and>
   (\<not> isEmpty (geometry f) \<and>
    (wkbType (geometry f) = Point \<or> wkbType (geometry f) = PointM) \<and>
    (\<forall>n \<in> set elevation_fields.
        map_of (attributes f) n = None \<or> map_of (attributes f) n = Some PyNone)
    \<longrightarrow> get_base_elevation_from_point parse (Some \<lparr>lname = nm, features = f # fs\<rparr>)
          = Inl MissingElevationError)"
proof (intro conjI impI)
  show "get_base_elevation_from_point parse (Some \<lparr>lname = nm, features = []\<rparr>)
          = Inl EmptyInputError"
    by (simp add: get_base_elevation_from_point_def EmptyInputError_def)
next
  assume h: "\<not> isEmpty (geometry f) \<and>
    (wkbType (geometry f) = Point \<or> wkbType (geometry f) = PointM) \<and>
    (\<forall>n \<in> set elevation_fields.
        map_of (attributes f) n = None \<or> map_of (attributes f) n = Some PyNone)"
  then have "\<forall>n \<in> set elevation_fields. \<not> present_non_null f n"
    using absent_or_null by blast
  then have "find (present_non_null f) elevation_fields = None"
    by (simp add: find_None_iff)
  then have "probe_fields parse f elevation_fields = Inl MissingElevationError"
    by (simp add: probe_fields_none MissingElevationError_def)
  with h show "get_base_elevation_from_point parse
                 (Some \<lparr>lname = nm, features = f # fs\<rparr>) = Inl MissingElevationError"
    by (auto simp: get_base_elevation_from_point_def z_wkb_types_def)
qed

theorem extraction_failures_witness:
  "get_base_elevation_from_point Map.empty (Some \<lparr>lname = ''pts'', features = []\<rparr>)
     = Inl EmptyInputError \<and>
   get_base_elevation_from_point Map.empty
     (Some \<lparr>lname = ''pts'',
            features = [\<lparr>geometry = \<lparr>isEmpty = False, wkbType = Point, vertex_z = NaN\<rparr>,
                         attributes = [(''id'', PyInt 1), (''elev'', PyNone)]\<rparr>]\<rparr>)
     = Inl MissingElevationError"
  using extraction_failures [of Map.empty "''pts''"
      "\<lparr>geometry = \<lparr>isEmpty = False, wkbType = Point, vertex_z = NaN\<rparr>,
        attributes = [(''id'', PyInt 1), (''elev'', PyNone)]\<rparr>" "[]"]
  by (simp add: z_wkb_types_def elevation_fields_def)




lemma render_threshold_expr:
  "render repr (threshold_expr dem_name base_elevation level)
     = rastercalc_expression repr dem_name base_elevation level"
  by (simp add: threshold_expr_def rastercalc_expression_def)

lemma inundated_iff:
  "bands (dem_name @ ''.tif@1'') = Some cell \<Longrightarrow>
   inundated bands dem_name base_elevation level = flt cell (fadd base_elevation level)"
  by (simp add: inundated_def threshold_expr_def)

lemma flt_fadd_mono: "flt c (fadd b l) \<Longrightarrow> flt l l' \<Longrightarrow> flt c (fadd b l')"
  by (cases c; cases b; cases l; cases l') simp_all





text \<open>
  C5. A cell flagged at flood level \<open>L\<close> is flagged at every flood level above \<open>L\<close>,
  for the same base elevation.
\<close>

theorem threshold_monotonic:
  assumes "inundated bands dem_name base_elevation L" and "flt L L'"
  shows "inundated bands dem_name base_elevation L'"
proof -
  from assms(1) obtain cell where c: "bands (dem_name @ ''.tif@1'') = Some cell"
    by (auto simp: inundated_def threshold_expr_def split: option.splits)
  with assms(1) have "flt cell (fadd base_elevation L)"
    by (simp add: inundated_iff)
  then have "flt cell (fadd base_elevation L')"
    using assms(2) by (rule flt_fadd_mono)
  with c show ?thesis by (simp add: inundated_iff)
qed

theorem threshold_monotonic_witness:
  "inundated [''dem.tif@1'' \<mapsto> Finite 95] ''dem'' (Finite 88.86) (Finite 10) \<and>
   flt (Finite 10) (Finite 12.5) \<and>
   inundated [''dem.tif@1'' \<mapsto> Finite 95] ''dem'' (Finite 88.86) (Finite 12.5)"
proof -
  have a: "inundated [''dem.tif@1'' \<mapsto> Finite 95] ''dem'' (Finite 88.86) (Finite 10)"
    by (simp add: inundated_def threshold_expr_def)
  have b: "flt (Finite 10) (Finite 12.5)" by simp
  from threshold_monotonic [OF a b] a b show ?thesis by simp
qed



section \<open>Properties of the pipeline\<close>

lemma not_prefix_shp:
  "\<not> sublist ''.shp'' (c # cs) \<Longrightarrow> \<not> prefix ''.shp'' ((c # cs) @ ''.shp'')"
  apply (cases cs)
   apply (simp add: prefix_Cons)
  subgoal for x xs
    apply (cases xs)
     apply (simp add: prefix_Cons)
    subgoal for y ys
      apply (cases ys)
       apply (simp add: prefix_Cons)
      apply (auto simp: sublist_Cons_right prefix_Cons)
      done
    done
  done

lemma replace_shp_suffix:
  "\<not> sublist ''.shp'' stem \<Longrightarrow> replace_from ''.shp'' ext (stem @ ''.shp'') = stem @ ext"
proof (induction stem)
  case Nil
  show ?case by simp
next
  case (Cons c cs)
  from Cons.prems have np: "\<not> prefix ''.shp'' ((c # cs) @ ''.shp'')"
    by (rule not_prefix_shp)
  from Cons.prems have "\<not> sublist ''.shp'' cs"
    by (simp add: sublist_Cons_right)
  then have "replace_from ''.shp'' ext (cs @ ''.shp'') = cs @ ext"
    by (rule Cons.IH)
  with np show ?case by (simp del: Cons_prefix_Cons)
qed

lemma join_common_prefix:
  "\<exists>pre. \<forall>s. s \<noteq> [] \<and> hd s \<noteq> CHR ''/'' \<longrightarrow> os_path_join a (b @ s) = pre @ s"
proof (cases "b \<noteq> [] \<and> hd b = CHR ''/''")
  case True
  then have "\<forall>s. os_path_join a (b @ s) = b @ s"
    by (simp add: os_path_join_def)
  then show ?thesis by blast
next
  case False
  then have "\<forall>s. s \<noteq> [] \<and> hd s \<noteq> CHR ''/'' \<longrightarrow>
     os_path_join a (b @ s) = (if a = [] \<or> last a = CHR ''/'' then a @ b else a @ ''/'' @ b) @ s"
    by (auto simp: os_path_join_def hd_append)
  then show ?thesis by blast
qed

lemma files_foldl_remove:
  "files (foldl remove_if_exists w ps) = files w - set ps"
  by (induction ps arbitrary: w) (auto simp: remove_if_exists_def)

lemma other_foldl_remove:
  "registered (foldl remove_if_exists w ps) = registered w \<and>
   calls (foldl remove_if_exists w ps) = calls w \<and>
   next_id (foldl remove_if_exists w ps) = next_id w"
  by (induction ps arbitrary: w) (auto simp: remove_if_exists_def)

lemma remove_if_exists_eq: "remove_if_exists w p = w\<lparr>files := files w - {p}\<rparr>"
  by (simp add: remove_if_exists_def)

lemma foldl_remove_eq: "foldl remove_if_exists w ps = w\<lparr>files := files w - set ps\<rparr>"
proof (induction ps arbitrary: w)
  case Nil
  show ?case by simp
next
  case (Cons p ps)
  have "files w - {p} - set ps = files w - set (p # ps)" by auto
  with Cons show ?case by (simp add: remove_if_exists_eq)
qed

lemma intersect_layers_append:
  "intersect_layers (xs @ ys) = intersect_layers xs @ intersect_layers ys"
  by (induction xs rule: intersect_layers.induct) simp_all

lemma filter_and_load_success:
  assumes "filter_and_load h pl lvl base out w2 = (Inr p, w')"
    and "temp_polygon_output h out lvl \<in> files w2"
  shows "p = filtered_polygon_output h out lvl \<and>
     files w' = (files w2 \<union> set (shapefile_files h (filtered_polygon_output h out lvl)))
           - {temp_polygon_output h out lvl}
           - set (map (\<lambda>e. py_replace ''.shp'' e (temp_polygon_output h out lvl))
                    [''.shx'', ''.dbf'', ''.prj'', ''.cpg'']) \<and>
     (\<exists>l. calls w' = calls w2 @
        [SelectByLocation l [0] pl 0,
         SaveSelectedFeatures l (filtered_polygon_output h out lvl)])"
  using assms
  by (clarsimp simp add: filter_and_load_def processing_run_def QgsVectorLayer_def addMapLayer_def
      removeMapLayer_def clean_up_def Let_def files_foldl_remove other_foldl_remove
      intersect_layers_append
      simp del: set_map list.map split: if_splits)

lemma filter_and_load_any:
  assumes "filter_and_load h pl lvl base out w2 = (r, w')"
  shows "set (intersect_layers (calls w')) \<subseteq> insert pl (set (intersect_layers (calls w2)))"
  using assms
  by (auto simp add: filter_and_load_def processing_run_def QgsVectorLayer_def addMapLayer_def
      removeMapLayer_def clean_up_def Let_def other_foldl_remove
      intersect_layers_append
      simp del: set_map list.map split: if_splits)

lemma pipeline_success:
  assumes "create_water_level_polygon h dem pl lvl base ext out w = (Inr p, w')"
  shows "p = filtered_polygon_output h out lvl \<and>
     files w' =
           (files w \<union> {raster_output h out lvl}
              \<union> set (shapefile_files h (temp_polygon_output h out lvl))
              \<union> set (shapefile_files h (filtered_polygon_output h out lvl)))
           - {temp_polygon_output h out lvl}
           - set (map (\<lambda>e. py_replace ''.shp'' e (temp_polygon_output h out lvl))
                    [''.shx'', ''.dbf'', ''.prj'', ''.cpg'']) \<and>
     (\<exists>l. calls w' = calls w @
        [RasterCalc [raster_source dem]
           (rastercalc_expression (float_repr h) (dem_name_of (raster_source dem)) base lvl)
           ext (raster_output h out lvl),
         Polygonize (raster_output h out lvl) 1 ''DN'' True [] (temp_polygon_output h out lvl),
         SelectByLocation l [0] pl 0,
         SaveSelectedFeatures l (filtered_polygon_output h out lvl)])"
proof -
  let ?c1 = "RasterCalc [raster_source dem]
            (rastercalc_expression (float_repr h) (dem_name_of (raster_source dem)) base lvl)
            ext (raster_output h out lvl)"
  let ?c2 = "Polygonize (raster_output h out lvl) 1 ''DN'' True [] (temp_polygon_output h out lvl)"
  let ?w2 = "w\<lparr>calls := calls w @ [?c1, ?c2],
               files := files w \<union> {raster_output h out lvl}
                  \<union> set (shapefile_files h (temp_polygon_output h out lvl))\<rparr>"
  from assms have fl: "filter_and_load h pl lvl base out ?w2 = (Inr p, w')"
    by (simp add: create_water_level_polygon_def processing_run_def Let_def Un_assoc
        split: if_splits)
  have "temp_polygon_output h out lvl \<in> files ?w2"
    by (simp add: shapefile_files_def)
  from filter_and_load_success [OF fl this] show ?thesis
    by (simp add: Un_assoc)
qed

lemma pipeline_any:
  assumes "create_water_level_polygon h dem pl lvl base ext out w = (r, w')"
  shows "set (intersect_layers (calls w')) \<subseteq> insert pl (set (intersect_layers (calls w)))"
proof (cases "MakeDirs \<in> failing h \<or> RasterThreshold \<in> failing h \<or> Vectorize \<in> failing h")
  case True
  with assms show ?thesis
    by (auto simp: create_water_level_polygon_def processing_run_def Let_def
        intersect_layers_append split: if_splits)
next
  case False
  let ?c1 = "RasterCalc [raster_source dem]
            (rastercalc_expression (float_repr h) (dem_name_of (raster_source dem)) base lvl)
            ext (raster_output h out lvl)"
  let ?c2 = "Polygonize (raster_output h out lvl) 1 ''DN'' True [] (temp_polygon_output h out lvl)"
  let ?w2 = "w\<lparr>calls := calls w @ [?c1, ?c2],
               files := files w \<union> {raster_output h out lvl}
                  \<union> set (shapefile_files h (temp_polygon_output h out lvl))\<rparr>"
  from assms False have "filter_and_load h pl lvl base out ?w2 = (r, w')"
    by (simp add: create_water_level_polygon_def processing_run_def Let_def Un_assoc)
  from filter_and_load_any [OF this] show ?thesis
    by (simp add: intersect_layers_append)
qed

lemma pipeline_ok:
  assumes "failing h = {}"
  shows "fst (create_water_level_polygon h dem pl lvl base ext out w)
           = Inr (filtered_polygon_output h out lvl)"
    and "calls (snd (create_water_level_polygon h dem pl lvl base ext out w)) =
          calls w @
          [RasterCalc [raster_source dem]
             (rastercalc_expression (float_repr h) (dem_name_of (raster_source dem)) base lvl)
             ext (raster_output h out lvl),
           Polygonize (raster_output h out lvl) 1 ''DN'' True [] (temp_polygon_output h out lvl),
           SelectByLocation
             \<lparr>handle_id = next_id w, handle_source = temp_polygon_output h out lvl,
               handle_name = ''temp_polygons''\<rparr> [0] pl 0,
           SaveSelectedFeatures
             \<lparr>handle_id = next_id w, handle_source = temp_polygon_output h out lvl,
               handle_name = ''temp_polygons''\<rparr> (filtered_polygon_output h out lvl)]"
    and "files (snd (create_water_level_polygon h dem pl lvl base ext out w)) =
           (files w \<union> {raster_output h out lvl}
              \<union> set (shapefile_files h (temp_polygon_output h out lvl))
              \<union> set (shapefile_files h (filtered_polygon_output h out lvl)))
           - {temp_polygon_output h out lvl}
           - set (map (\<lambda>e. py_replace ''.shp'' e (temp_polygon_output h out lvl))
                    [''.shx'', ''.dbf'', ''.prj'', ''.cpg''])"
  using assms
  by (simp_all add: create_water_level_polygon_def filter_and_load_def processing_run_def
      QgsVectorLayer_def addMapLayer_def removeMapLayer_def clean_up_def Let_def
      foldl_remove_eq shapefile_files_def Un_assoc del: set_map list.map)

lemma main_ok:
  assumes "failing h = {}" and "accepted d"
    and "get_values h d = Inr (dem, pl, base, lvl, ext)"
  shows "main h d w =
     (Created (filtered_polygon_output h (project_output_dir h) lvl),
      snd (create_water_level_polygon h dem pl lvl base ext (project_output_dir h) w))"
proof (cases "create_water_level_polygon h dem pl lvl base ext (project_output_dir h) w")
  case (Pair r w')
  with pipeline_ok(1) [OF assms(1), of dem pl lvl base ext "project_output_dir h" w]
  have "r = Inr (filtered_polygon_output h (project_output_dir h) lvl)" by simp
  with Pair assms(2,3) show ?thesis by (simp add: main_def)
qed

lemma main_any:
  assumes "main h d w = (out, w')"
  shows "w' = w \<or>
         (\<exists>dem pl base lvl ext r.
            get_values h d = Inr (dem, pl, base, lvl, ext) \<and>
            create_water_level_polygon h dem pl lvl base ext (project_output_dir h) w = (r, w'))"
  using assms
  by (auto simp: main_def split: if_splits sum.splits prod.splits)

lemma get_values_cases:
  "get_values h d = Inr (dem, pl, base, lvl, ext) \<Longrightarrow>
   dem_combo_data d = Some dem \<and> point_combo_data d = Some pl \<and>
   get_base_elevation_from_point (float_of_str h) (Some pl) = Inr base \<and>
   lvl = level_spinbox_value d"
  by (auto simp: get_values_def Let_def split: option.splits sum.splits if_splits)

lemma report_not_created: "report e \<noteq> Created p"
  by (cases e) simp_all

lemma main_created:
  assumes "main h d w = (Created p, w')"
  shows "\<exists>dem pl base lvl ext.
           get_values h d = Inr (dem, pl, base, lvl, ext) \<and>
           create_water_level_polygon h dem pl lvl base ext (project_output_dir h) w
             = (Inr p, w')"
  using assms
  by (auto simp: main_def report_not_created split: if_splits sum.splits prod.splits)

lemma extraction_reads_first:
  "features pl = f # fs \<Longrightarrow>
   get_base_elevation_from_point parse (Some pl)
     = get_base_elevation_from_point parse (Some (pl\<lparr>features := [f]\<rparr>))"
  by (simp add: get_base_elevation_from_point_def)

lemma extraction_nonempty:
  "get_base_elevation_from_point parse (Some pl) = Inr base \<Longrightarrow> features pl \<noteq> []"
  by (auto simp: get_base_elevation_from_point_def)

lemma output_paths_share_prefix:
  "\<exists>pre. raster_output h out lvl = pre @ ''_level.tif'' \<and>
         temp_polygon_output h out lvl = pre @ ''_level_polygon_temp.shp'' \<and>
         filtered_polygon_output h out lvl = pre @ ''_level_polygon.shp''"
proof -
  obtain pre where pre: "\<forall>s. s \<noteq> [] \<and> hd s \<noteq> CHR ''/'' \<longrightarrow>
      os_path_join (level_folder h out lvl) (float_repr h lvl @ s) = pre @ s"
    using join_common_prefix by blast
  have "raster_output h out lvl = pre @ ''_level.tif''"
    unfolding raster_output_def using pre by simp
  moreover have "temp_polygon_output h out lvl = pre @ ''_level_polygon_temp.shp''"
    unfolding temp_polygon_output_def using pre by simp
  moreover have "filtered_polygon_output h out lvl = pre @ ''_level_polygon.shp''"
    unfolding filtered_polygon_output_def using pre by simp
  ultimately show ?thesis by blast
qed

lemma created_run_reference:
  assumes "main h d w = (Created p, w')"
  shows "\<exists>pl f fs base.
           point_combo_data d = Some pl \<and> features pl = f # fs \<and>
           get_base_elevation_from_point (float_of_str h) (Some (pl\<lparr>features := [f]\<rparr>))
             = Inr base \<and>
           (\<exists>path extent out.
              RasterCalc [path]
                (rastercalc_expression (float_repr h) (dem_name_of path) base
                   (level_spinbox_value d))
                extent out \<in> set (calls w')) \<and>
           filter_features (calls w') = filter_features (calls w) @ f # fs"
proof -
  from main_created [OF assms] obtain dem pl base lvl ext
    where gv: "get_values h d = Inr (dem, pl, base, lvl, ext)"
      and run: "create_water_level_polygon h dem pl lvl base ext (project_output_dir h) w
                  = (Inr p, w')"
    by blast
  from get_values_cases [OF gv]
  have sel: "point_combo_data d = Some pl"
    and ex: "get_base_elevation_from_point (float_of_str h) (Some pl) = Inr base"
    and lv: "lvl = level_spinbox_value d"
    by simp_all
  from extraction_nonempty [OF ex] obtain f fs where ff: "features pl = f # fs"
    by (cases "features pl") auto
  from ex extraction_reads_first [OF ff]
  have one: "get_base_elevation_from_point (float_of_str h) (Some (pl\<lparr>features := [f]\<rparr>))
               = Inr base"
    by simp
  from pipeline_success [OF run] obtain l where
    cs: "calls w' = calls w @
        [RasterCalc [raster_source dem]
           (rastercalc_expression (float_repr h) (dem_name_of (raster_source dem)) base lvl)
           ext (raster_output h (project_output_dir h) lvl),
         Polygonize (raster_output h (project_output_dir h) lvl) 1 ''DN'' True []
           (temp_polygon_output h (project_output_dir h) lvl),
         SelectByLocation l [0] pl 0,
         SaveSelectedFeatures l (filtered_polygon_output h (project_output_dir h) lvl)]"
    by blast
  have rc: "\<exists>path extent out.
              RasterCalc [path]
                (rastercalc_expression (float_repr h) (dem_name_of path) base
                   (level_spinbox_value d))
                extent out \<in> set (calls w')"
    unfolding cs lv by (intro exI [of _ "raster_source dem"] exI [of _ ext]
        exI [of _ "raster_output h (project_output_dir h) (level_spinbox_value d)"]) simp
  have ff': "filter_features (calls w') = filter_features (calls w) @ f # fs"
    unfolding cs by (simp add: filter_features_def intersect_layers_append ff)
  from sel ff one rc ff' show ?thesis by blast
qed

section \<open>The example run\<close>

lemma sample_host_fields:
  "failing (sample_host fs) = fs"
  "project_output_dir (sample_host fs) = ''/proj/output''"
  "float_repr (sample_host fs) = sample_repr"
  "float_fixed1 (sample_host fs) = sample_fixed1"
  "sidecar_exts (sample_host fs) = [''.shx'', ''.dbf'', ''.prj'']"
  "accepted (sample_dialog ps)"
  by (simp_all add: sample_host_def sample_dialog_def)

lemma sample_paths:
  "raster_output (sample_host fs) ''/proj/output'' (Finite 10)
     = ''/proj/output/water_level_10.0m/10.0_level.tif''"
  "temp_polygon_output (sample_host fs) ''/proj/output'' (Finite 10)
     = ''/proj/output/water_level_10.0m/10.0_level_polygon_temp.shp''"
  "filtered_polygon_output (sample_host fs) ''/proj/output'' (Finite 10)
     = ''/proj/output/water_level_10.0m/10.0_level_polygon.shp''"
  by (simp_all add: raster_output_def temp_polygon_output_def filtered_polygon_output_def
      level_folder_def os_path_join_def sample_host_def sample_repr_def)

lemma sample_values:
  "get_values (sample_host fs) (sample_dialog (point_a # ps)) =
     Inr (\<lparr>raster_name = ''dem'', raster_source = ''/data/dem.tif''\<rparr>,
          \<lparr>lname = ''points'', features = point_a # ps\<rparr>,
          Finite 88.86, Finite 10, ''0.0,10.0,0.0,10.0 [EPSG:23700]'')"
  by (simp add: get_values_def get_base_elevation_from_point_def sample_host_def
      sample_dialog_def point_a_def z_wkb_types_def fne_def)

lemma sample_main:
  "main (sample_host {}) (sample_dialog (point_a # ps)) sample_world =
     (Created ''/proj/output/water_level_10.0m/10.0_level_polygon.shp'',
      snd (create_water_level_polygon (sample_host {})
             \<lparr>raster_name = ''dem'', raster_source = ''/data/dem.tif''\<rparr>
             \<lparr>lname = ''points'', features = point_a # ps\<rparr>
             (Finite 10) (Finite 88.86) ''0.0,10.0,0.0,10.0 [EPSG:23700]''
             ''/proj/output'' sample_world))"
  using main_ok [of "sample_host {}" "sample_dialog (point_a # ps)" _ _ _ _ _ sample_world,
      OF _ _ sample_values]
  by (simp add: sample_host_fields sample_paths)

lemma sample_not_twice:
  "\<not> sublist ''.shp'' ''/proj/output/water_level_10.0m/10.0_level_polygon_temp''"
  by (simp add: sublist_code)

section \<open>Claims about the pipeline\<close>

text \<open>
  C4 (amended). The spatial filter is given the selected point dataset as a whole: every
  \<open>INTERSECT\<close> layer of a run is the dataset selected in the dialog. In a run that
  creates the polygon, the base elevation in the threshold expression is the one extracted
  from the first feature of that dataset, while the filter's reference features are all
  the features of the dataset; the two are the same feature when the dataset has exactly
  one.
\<close>

theorem filter_reference_is_dataset:
  assumes "main h d w = (out, w')"
  shows "(\<forall>pl \<in> set (intersect_layers (calls w')) - set (intersect_layers (calls w)).
            point_combo_data d = Some pl) \<and>
         (out = Created p \<longrightarrow>
          (\<exists>pl f fs base.
             point_combo_data d = Some pl \<and> features pl = f # fs \<and>
             get_base_elevation_from_point (float_of_str h) (Some (pl\<lparr>features := [f]\<rparr>))
               = Inr base \<and>
             (\<exists>path extent out.
                RasterCalc [path]
                  (rastercalc_expression (float_repr h) (dem_name_of path) base
                     (level_spinbox_value d))
                  extent out \<in> set (calls w')) \<and>
             filter_features (calls w') = filter_features (calls w) @ f # fs))"
proof (intro conjI impI ballI)
  fix pl assume pl: "pl \<in> set (intersect_layers (calls w')) - set (intersect_layers (calls w))"
  then have "w' \<noteq> w" by auto
  with main_any [OF assms] obtain dem pl' base lvl ext r
    where gv: "get_values h d = Inr (dem, pl', base, lvl, ext)"
      and run: "create_water_level_polygon h dem pl' lvl base ext (project_output_dir h) w
                  = (r, w')"
    by blast
  from pipeline_any [OF run] pl have "pl = pl'" by auto
  with get_values_cases [OF gv] show "point_combo_data d = Some pl" by simp
next
  assume "out = Created p"
  with assms have "main h d w = (Created p, w')" by simp
  then show "\<exists>pl f fs base.
             point_combo_data d = Some pl \<and> features pl = f # fs \<and>
             get_base_elevation_from_point (float_of_str h) (Some (pl\<lparr>features := [f]\<rparr>))
               = Inr base \<and>
             (\<exists>path extent out.
                RasterCalc [path]
                  (rastercalc_expression (float_repr h) (dem_name_of path) base
                     (level_spinbox_value d))
                  extent out \<in> set (calls w')) \<and>
             filter_features (calls w') = filter_features (calls w) @ f # fs"
    by (rule created_run_reference)
qed

theorem filter_reference_is_dataset_witness:
  "\<exists>pl f fs base.
      point_combo_data (sample_dialog [point_a]) = Some pl \<and> features pl = f # fs \<and>
      get_base_elevation_from_point (float_of_str (sample_host {}))
        (Some (pl\<lparr>features := [f]\<rparr>)) = Inr base \<and>
      (\<exists>path extent out.
         RasterCalc [path]
           (rastercalc_expression (float_repr (sample_host {})) (dem_name_of path) base
              (level_spinbox_value (sample_dialog [point_a])))
           extent out
         \<in> set (calls (snd (main (sample_host {}) (sample_dialog [point_a]) sample_world)))) \<and>
      filter_features (calls (snd (main (sample_host {}) (sample_dialog [point_a]) sample_world)))
        = filter_features (calls sample_world) @ f # fs"
proof -
  have run: "main (sample_host {}) (sample_dialog [point_a]) sample_world =
      (Created ''/proj/output/water_level_10.0m/10.0_level_polygon.shp'',
       snd (main (sample_host {}) (sample_dialog [point_a]) sample_world))"
    by (simp add: sample_main)
  from filter_reference_is_dataset [OF run,
      of "''/proj/output/water_level_10.0m/10.0_level_polygon.shp''"]
  show ?thesis by simp
qed

text \<open>
  C4 as stated fails for a dataset of two points: the elevation comes from the first point,
  and the spatial filter is given both.
\<close>

theorem filter_reference_counterexample:
  "fst (main (sample_host {}) (sample_dialog [point_a, point_b]) sample_world)
     = Created ''/proj/output/water_level_10.0m/10.0_level_polygon.shp'' \<and>
   get_base_elevation_from_point (float_of_str (sample_host {}))
     (point_combo_data (sample_dialog [point_a, point_b])) = Inr (vertex_z (geometry point_a)) \<and>
   filter_features (calls (snd (main (sample_host {}) (sample_dialog [point_a, point_b])
                                  sample_world)))
     = [point_a, point_b] \<and>
   point_b \<noteq> point_a"
proof -
  have "get_base_elevation_from_point (float_of_str (sample_host {}))
          (point_combo_data (sample_dialog [point_a, point_b])) = Inr (vertex_z (geometry point_a))"
    by (simp add: get_base_elevation_from_point_def sample_dialog_def point_a_def
        z_wkb_types_def fne_def)
  moreover have "point_b \<noteq> point_a"
    by (simp add: point_a_def point_b_def)
  moreover have "calls sample_world = []"
    by (simp add: sample_world_def)
  ultimately show ?thesis
    by (simp add: sample_main pipeline_ok(2) filter_features_def sample_host_fields)
qed

text \<open>
  C7. When the spatial filter fails, the run ends with an unexpected error and the
  temporary polygon layer, added to the project before the filter, is still registered:
  the project's layers are not what they were before the run.
\<close>

theorem temp_layer_left_registered:
  "fst (main (sample_host {SpatialFilter}) (sample_dialog [point_a]) sample_world)
     = UnexpectedError (QgsProcessingException ''processing.run failed'') \<and>
   registered (snd (main (sample_host {SpatialFilter}) (sample_dialog [point_a]) sample_world))
     = [\<lparr>handle_id = 0,
         handle_source = ''/proj/output/water_level_10.0m/10.0_level_polygon_temp.shp'',
         handle_name = ''temp_polygons''\<rparr>] \<and>
   registered sample_world = []"
  by (simp add: main_def sample_values sample_host_fields sample_paths
      create_water_level_polygon_def filter_and_load_def processing_run_def
      QgsVectorLayer_def addMapLayer_def Let_def sample_world_def)

text \<open>
  C8 (amended). After a successful run the final filtered polygon file exists and so does
  the threshold raster; the unfiltered polygon file does not exist, nor do its sidecar
  files \<open>.shx\<close>, \<open>.dbf\<close>, \<open>.prj\<close> and \<open>.cpg\<close>, when \<open>.shp\<close> occurs in
  the temporary path only as its extension.
\<close>

theorem cleanup_after_success:
  assumes run: "create_water_level_polygon h dem pl lvl base ext out w = (Inr p, w')"
    and stem: "temp_polygon_output h out lvl = stem @ ''.shp''"
    and once: "\<not> sublist ''.shp'' stem"
  shows "p = filtered_polygon_output h out lvl \<and> p \<in> files w' \<and>
         raster_output h out lvl \<in> files w' \<and>
         temp_polygon_output h out lvl \<notin> files w' \<and>
         stem @ ''.shx'' \<notin> files w' \<and> stem @ ''.dbf'' \<notin> files w' \<and>
         stem @ ''.prj'' \<notin> files w' \<and> stem @ ''.cpg'' \<notin> files w'"
proof -
  obtain pre where r: "raster_output h out lvl = pre @ ''_level.tif''"
    and t: "temp_polygon_output h out lvl = pre @ ''_level_polygon_temp.shp''"
    and f: "filtered_polygon_output h out lvl = pre @ ''_level_polygon.shp''"
    using output_paths_share_prefix by blast
  from t stem have s: "stem = pre @ ''_level_polygon_temp''"
    by simp
  have rep: "py_replace ''.shp'' e (temp_polygon_output h out lvl) = stem @ e" for e
    using replace_shp_suffix [OF once] by (simp add: py_replace_def stem)
  from pipeline_success [OF run]
  have p: "p = filtered_polygon_output h out lvl"
    and fs: "files w' =
           (files w \<union> {raster_output h out lvl}
              \<union> set (shapefile_files h (temp_polygon_output h out lvl))
              \<union> set (shapefile_files h (filtered_polygon_output h out lvl)))
           - {temp_polygon_output h out lvl}
           - {stem @ ''.shx'', stem @ ''.dbf'', stem @ ''.prj'', stem @ ''.cpg''}"
    by (simp_all add: rep)
  have "filtered_polygon_output h out lvl \<in> files w'"
    unfolding fs by (simp add: shapefile_files_def f t s)
  moreover have "raster_output h out lvl \<in> files w'"
    unfolding fs by (simp add: r t s)
  moreover have "temp_polygon_output h out lvl \<notin> files w'"
    unfolding fs by simp
  moreover have "stem @ e \<notin> files w'" if "e \<in> {''.shx'', ''.dbf'', ''.prj'', ''.cpg''}" for e
    unfolding fs using that by auto
  ultimately show ?thesis using p by simp
qed

theorem cleanup_after_success_witness:
  "''/proj/output/water_level_10.0m/10.0_level_polygon.shp''
     \<in> files (snd (main (sample_host {}) (sample_dialog [point_a]) sample_world)) \<and>
   ''/proj/output/water_level_10.0m/10.0_level_polygon_temp.shp''
     \<notin> files (snd (main (sample_host {}) (sample_dialog [point_a]) sample_world)) \<and>
   ''/proj/output/water_level_10.0m/10.0_level_polygon_temp.dbf''
     \<notin> files (snd (main (sample_host {}) (sample_dialog [point_a]) sample_world))"
proof -
  let ?W = "create_water_level_polygon (sample_host {})
             \<lparr>raster_name = ''dem'', raster_source = ''/data/dem.tif''\<rparr>
             \<lparr>lname = ''points'', features = [point_a]\<rparr>
             (Finite 10) (Finite 88.86) ''0.0,10.0,0.0,10.0 [EPSG:23700]''
             ''/proj/output'' sample_world"
  have run: "?W = (Inr ''/proj/output/water_level_10.0m/10.0_level_polygon.shp'', snd ?W)"
    using pipeline_ok(1) [of "sample_host {}" _ _ "Finite 10" _ _ "''/proj/output''" sample_world]
    by (simp add: sample_host_fields sample_paths prod_eq_iff)
  have stem: "temp_polygon_output (sample_host {}) ''/proj/output'' (Finite 10)
                = ''/proj/output/water_level_10.0m/10.0_level_polygon_temp'' @ ''.shp''"
    by (simp add: sample_paths)
  from cleanup_after_success [OF run stem sample_not_twice] show ?thesis
    by (simp add: sample_main sample_paths)
qed

text \<open>
  C8 as stated fails for the threshold raster: nothing removes it, and it exists after the
  successful example run.
\<close>

theorem threshold_raster_kept:
  "fst (main (sample_host {}) (sample_dialog [point_a]) sample_world)
     = Created ''/proj/output/water_level_10.0m/10.0_level_polygon.shp'' \<and>
   ''/proj/output/water_level_10.0m/10.0_level.tif''
     \<in> files (snd (main (sample_host {}) (sample_dialog [point_a]) sample_world))"
  by (simp add: sample_main pipeline_ok(3) sample_host_fields sample_paths py_replace_def)

section \<open>Claims about the point creator\<close>

text \<open>
  C9. With the name \<open>measurement_point\<close>, the coordinates 641056.0, 162787.0, 88.86 and
  no output file, where the host gives a valid memory layer, the point creator returns a
  memory layer with exactly one feature, with the attributes
  \<open>(1, 641056.0, 162787.0, 88.86, "measurement_point")\<close>, and registers it.
\<close>

theorem point_creator_scenario:
  assumes "memory_layer_valid h"
  shows "\<exists>layer w'.
           create_point_layer h ''measurement_point'' (Finite 641056) (Finite 162787)
             (Finite 88.86) None w = (Inr layer, w') \<and>
           provider layer = ''memory'' \<and>
           map (\<lambda>f. map snd (attributes f)) (features layer) =
             [[PyInt 1, PyFloat (Finite 641056), PyFloat (Finite 162787),
               PyFloat (Finite 88.86), PyStr ''measurement_point'']] \<and>
           project_layers w' = project_layers w @ [layer]"
  using assms
  by (simp add: create_point_layer_def create_memory_layer_def point_feature_def
      point_fields_def Let_def)

theorem point_creator_scenario_witness:
  "\<exists>layer w'.
     create_point_layer
       \<lparr>project_crs_authid = ''EPSG:23700'', memory_layer_valid = True,
         writer_has_error = False, file_layer_valid = True\<rparr>
       ''measurement_point'' (Finite 641056) (Finite 162787) (Finite 88.86) None
       \<lparr>written_files = {}, project_layers = []\<rparr> = (Inr layer, w') \<and>
     provider layer = ''memory'' \<and>
     map (\<lambda>f. map snd (attributes f)) (features layer) =
       [[PyInt 1, PyFloat (Finite 641056), PyFloat (Finite 162787),
         PyFloat (Finite 88.86), PyStr ''measurement_point'']] \<and>
     project_layers w' = project_layers \<lparr>written_files = {}, project_layers = []\<rparr> @ [layer]"
  by (rule point_creator_scenario) simp

end
